theory Spec2Isabelle
  imports Main
begin

section \<open>Data model of \<open>src/services/resumeService.ts\<close>\<close>

text \<open>
  The string-literal union \<open>'error' | 'warning' | 'success'\<close> is a datatype, the
  interfaces are records. An optional field \<open>f?: string[]\<close> holds either
  \<open>undefined\<close> (\<open>None\<close>) or an array (\<open>Some xs\<close>). A JavaScript number is
  modelled as \<open>int\<close>: every value the score takes is an integer far below \<open>2^53\<close>
  (an array has fewer than \<open>2^32\<close> elements), where double arithmetic is exact.
\<close>

datatype Severity = error | warning | success

record Suggestion =
  "text" :: string
  severity :: Severity

record Format =
  isValid :: bool
  issues :: "string list"

record AnalysisResult =
  score :: int
  "keywords" :: "string list"
  suggestions :: "Suggestion list"
  format :: Format

record APIResponse =
  hasContactInfo :: bool
  hasWorkExperience :: bool
  hasEducation :: bool
  hasSkills :: bool
  formatIssues :: "string list option"
  skills :: "string list option"
  industryTerms :: "string list option"
  actionVerbs :: "string list option"
  strengths :: "string list option"

section \<open>The JavaScript primitives the service uses\<close>

text \<open>\<open>xs?.length\<close> read as a condition: \<open>undefined\<close> and \<open>0\<close> are falsy.\<close>

definition length_truthy :: "'a list option \<Rightarrow> bool" where
  "length_truthy xs = (case xs of None \<Rightarrow> False | Some ys \<Rightarrow> length ys \<noteq> 0)"

text \<open>\<open>xs || []\<close>: every array, the empty one too, is truthy; \<open>undefined\<close> is not.\<close>

definition or_empty :: "'a list option \<Rightarrow> 'a list" where
  "or_empty xs = (case xs of None \<Rightarrow> [] | Some ys \<Rightarrow> ys)"

text \<open>
  \<open>xs?.forEach(f)\<close>: nothing happens on \<open>undefined\<close>; otherwise the callback runs
  on every element from index 0 upwards. The callback's effect on the object it closes
  over is a state transformer.
\<close>

definition forEach :: "'a list option \<Rightarrow> ('a \<Rightarrow> 's \<Rightarrow> 's) \<Rightarrow> 's \<Rightarrow> 's" where
  "forEach xs f s = (case xs of None \<Rightarrow> s | Some ys \<Rightarrow> fold f ys s)"

text \<open>\<open>Array.prototype.push\<close> appends at the end.\<close>

definition push :: "'a \<Rightarrow> 'a list \<Rightarrow> 'a list" where
  "push x xs = xs @ [x]"

text \<open>
  A \<open>Set<string>\<close> is the list of its elements in insertion order, which is the
  order \<open>Array.from\<close> reads them in. \<open>add\<close> of an element that is already there
  (the very same string) changes nothing.
\<close>

definition Set_add :: "'a \<Rightarrow> 'a list \<Rightarrow> 'a list" where
  "Set_add x ks = (if x \<in> set ks then ks else ks @ [x])"

section \<open>The scoring functions\<close>

definition calculateATSScore :: "APIResponse \<Rightarrow> int" where
  "calculateATSScore analysisData =
     (let score = 100;
          score = (if \<not> hasContactInfo analysisData then score - 10 else score);
          score = (if \<not> hasWorkExperience analysisData then score - 15 else score);
          score = (if \<not> hasEducation analysisData then score - 10 else score);
          score = (if \<not> hasSkills analysisData then score - 10 else score);
          score = (case formatIssues analysisData of
                     None \<Rightarrow> score
                   | Some fi \<Rightarrow>
                       if length fi \<noteq> 0 then score - int (length fi) * 5 else score)
      in max 0 (min 100 score))"

definition extractKeywords :: "APIResponse \<Rightarrow> string list" where
  "extractKeywords analysisData =
     (let keywords = [];
          keywords = forEach (skills analysisData) Set_add keywords;
          keywords = forEach (industryTerms analysisData) Set_add keywords;
          keywords = forEach (actionVerbs analysisData) Set_add keywords
      in keywords)"

definition generateSuggestions :: "APIResponse \<Rightarrow> Suggestion list" where
  "generateSuggestions analysisData =
     (let suggestions = [];
          suggestions = (if \<not> hasContactInfo analysisData
            then push \<lparr>text = ''Add complete contact information including phone, email, and location'',
                       severity = error\<rparr> suggestions
            else suggestions);
          suggestions = (if \<not> hasWorkExperience analysisData
            then push \<lparr>text = ''Include detailed work experience with measurable achievements'',
                       severity = error\<rparr> suggestions
            else suggestions);
          suggestions = (if \<not> hasEducation analysisData
            then push \<lparr>text = ''Add your educational background'', severity = error\<rparr> suggestions
            else suggestions);
          suggestions = (if \<not> hasSkills analysisData
            then push \<lparr>text = ''List relevant technical and soft skills'', severity = error\<rparr>
                   suggestions
            else suggestions);
          suggestions = forEach (formatIssues analysisData)
            (\<lambda>issue. push \<lparr>text = issue, severity = warning\<rparr>) suggestions;
          suggestions = forEach (strengths analysisData)
            (\<lambda>strength. push \<lparr>text = strength, severity = success\<rparr>) suggestions
      in suggestions)"

definition validateFormat :: "APIResponse \<Rightarrow> Format" where
  "validateFormat analysisData =
     \<lparr>isValid = \<not> length_truthy (formatIssues analysisData),
      issues = or_empty (formatIssues analysisData)\<rparr>"

text \<open>The object \<open>analyzeResume\<close> returns once both requests have answered.\<close>

definition analyze :: "APIResponse \<Rightarrow> AnalysisResult" where
  "analyze analysisData =
     \<lparr>score = calculateATSScore analysisData,
      keywords = extractKeywords analysisData,
      suggestions = generateSuggestions analysisData,
      format = validateFormat analysisData\<rparr>"

section \<open>What the caller sees: results and errors\<close>

text \<open>
  A thrown value (a rejected promise) is the left summand of the result. The two error
  classes of the repository are \<open>Error\<close> and the component's
  \<open>FileNotSelectedError extends Error\<close>, which overrides \<open>name\<close>.
\<close>

datatype ErrorClass = Error | FileNotSelectedError

record JsError =
  errorClass :: ErrorClass
  name :: string
  message :: string

definition new_Error :: "string \<Rightarrow> JsError" where
  "new_Error msg = \<lparr>errorClass = Error, name = ''Error'', message = msg\<rparr>"

definition new_FileNotSelectedError :: "string \<Rightarrow> JsError" where
  "new_FileNotSelectedError msg =
     \<lparr>errorClass = FileNotSelectedError, name = ''FileNotSelectedError'', message = msg\<rparr>"

text \<open>
  \<open>analyzeResume\<close> of the service. The two \<open>axios.post\<close> requests are parameters:
  each either rejects with some value of type \<open>'x\<close> or answers. Whatever is thrown
  inside the \<open>try\<close> block is caught and replaced by one fixed \<open>Error\<close>.
\<close>

definition analyzeResume ::
  "('file \<Rightarrow> 'x + 'txt) \<Rightarrow> ('txt \<Rightarrow> 'x + APIResponse) \<Rightarrow> 'file \<Rightarrow> JsError + AnalysisResult" where
  "analyzeResume postExtractText postAnalyze file =
     (case postExtractText file of
        Inl _ \<Rightarrow> Inl (new_Error ''Failed to analyze resume'')
      | Inr resumeText \<Rightarrow>
          (case postAnalyze resumeText of
             Inl _ \<Rightarrow> Inl (new_Error ''Failed to analyze resume'')
           | Inr analysisData \<Rightarrow> Inr (analyze analysisData)))"

text \<open>\<open>queryFn\<close> of the component \<open>ResumeScanner\<close>; its state \<open>file\<close> is \<open>File | null\<close>.\<close>

definition queryFn ::
  "('file \<Rightarrow> 'x + 'txt) \<Rightarrow> ('txt \<Rightarrow> 'x + APIResponse) \<Rightarrow> 'file option
     \<Rightarrow> JsError + AnalysisResult" where
  "queryFn postExtractText postAnalyze file =
     (case file of
        None \<Rightarrow> Inl (new_FileNotSelectedError ''No file selected'')
      | Some f \<Rightarrow> analyzeResume postExtractText postAnalyze f)"

section \<open>Reference definitions for the keyword order\<close>

text \<open>
  The specification of the keyword list in words: of a sequence, keep every position whose
  string has not occurred at an earlier position, in the order of the positions.
\<close>

definition firstOccurrences :: "'a list \<Rightarrow> 'a list" where
  "firstOccurrences xs =
     map (\<lambda>i. xs ! i) (filter (\<lambda>i. xs ! i \<notin> set (take i xs)) [0..<length xs])"

section \<open>The same functions over an explicit store\<close>

text \<open>
  The \<open>Set\<close> of \<open>extractKeywords\<close> and the array of \<open>generateSuggestions\<close> are
  objects that the functions create and then mutate through a reference. Here they live
  in a store: a reference is an index, \<open>new\<close> appends a cell, a method call on a
  reference rewrites that cell. A reference the functions hold always points at the
  object they created; on any other cell the operations leave the store as it is.
\<close>

datatype HeapObject = SetObject "string list" | ArrayObject "Suggestion list"

type_synonym Heap = "HeapObject list"

definition new_Set :: "Heap \<Rightarrow> nat \<times> Heap" where
  "new_Set h = (length h, h @ [SetObject []])"

definition new_Array :: "Heap \<Rightarrow> nat \<times> Heap" where
  "new_Array h = (length h, h @ [ArrayObject []])"

definition Set_add_at :: "nat \<Rightarrow> string \<Rightarrow> Heap \<Rightarrow> Heap" where
  "Set_add_at r x h =
     (if r < length h
      then (case h ! r of SetObject ks \<Rightarrow> h[r := SetObject (Set_add x ks)] | ArrayObject _ \<Rightarrow> h)
      else h)"

definition Array_from_at :: "nat \<Rightarrow> Heap \<Rightarrow> string list" where
  "Array_from_at r h =
     (if r < length h then (case h ! r of SetObject ks \<Rightarrow> ks | ArrayObject _ \<Rightarrow> []) else [])"

definition push_at :: "nat \<Rightarrow> Suggestion \<Rightarrow> Heap \<Rightarrow> Heap" where
  "push_at r x h =
     (if r < length h
      then (case h ! r of ArrayObject xs \<Rightarrow> h[r := ArrayObject (push x xs)] | SetObject _ \<Rightarrow> h)
      else h)"

definition array_at :: "nat \<Rightarrow> Heap \<Rightarrow> Suggestion list" where
  "array_at r h =
     (if r < length h then (case h ! r of ArrayObject xs \<Rightarrow> xs | SetObject _ \<Rightarrow> []) else [])"

text \<open>
  The two functions that allocate, with the store passed through every statement, and
  the object literal of \<open>analyzeResume\<close>, whose properties are evaluated in the order
  they are written. \<open>calculateATSScore\<close> and \<open>validateFormat\<close> create no object
  that is mutated.
\<close>

definition extractKeywords_heap :: "APIResponse \<Rightarrow> Heap \<Rightarrow> string list \<times> Heap" where
  "extractKeywords_heap analysisData h =
     (let (keywords, h) = new_Set h;
          h = forEach (skills analysisData) (\<lambda>skill. Set_add_at keywords skill) h;
          h = forEach (industryTerms analysisData) (\<lambda>term. Set_add_at keywords term) h;
          h = forEach (actionVerbs analysisData) (\<lambda>verb. Set_add_at keywords verb) h
      in (Array_from_at keywords h, h))"

definition generateSuggestions_heap :: "APIResponse \<Rightarrow> Heap \<Rightarrow> Suggestion list \<times> Heap" where
  "generateSuggestions_heap analysisData h =
     (let (suggestions, h) = new_Array h;
          h = (if \<not> hasContactInfo analysisData
            then push_at suggestions
                   \<lparr>text = ''Add complete contact information including phone, email, and location'',
                    severity = error\<rparr> h
            else h);
          h = (if \<not> hasWorkExperience analysisData
            then push_at suggestions
                   \<lparr>text = ''Include detailed work experience with measurable achievements'',
                    severity = error\<rparr> h
            else h);
          h = (if \<not> hasEducation analysisData
            then push_at suggestions \<lparr>text = ''Add your educational background'', severity = error\<rparr> h
            else h);
          h = (if \<not> hasSkills analysisData
            then push_at suggestions \<lparr>text = ''List relevant technical and soft skills'', severity = error\<rparr> h
            else h);
          h = forEach (formatIssues analysisData)
            (\<lambda>issue. push_at suggestions \<lparr>text = issue, severity = warning\<rparr>) h;
          h = forEach (strengths analysisData)
            (\<lambda>strength. push_at suggestions \<lparr>text = strength, severity = success\<rparr>) h
      in (array_at suggestions h, h))"

definition analyze_heap :: "APIResponse \<Rightarrow> Heap \<Rightarrow> AnalysisResult \<times> Heap" where
  "analyze_heap analysisData h =
     (let score = calculateATSScore analysisData;
          (keywords, h) = extractKeywords_heap analysisData h;
          (suggestions, h) = generateSuggestions_heap analysisData h;
          format = validateFormat analysisData
      in (\<lparr>score = score, keywords = keywords, suggestions = suggestions, format = format\<rparr>, h))"

section \<open>Theorems\<close>

subsection \<open>The score\<close>

text \<open>The sum of the deductions the source subtracts one after the other.\<close>

lemma calculateATSScore_unfold:
  "calculateATSScore d =
     max 0 (min 100 (100
       - (if hasContactInfo d then 0 else 10)
       - (if hasWorkExperience d then 0 else 15)
       - (if hasEducation d then 0 else 10)
       - (if hasSkills d then 0 else 10)
       - 5 * int (length (or_empty (formatIssues d)))))"
  by (cases "formatIssues d")
     (simp_all add: calculateATSScore_def or_empty_def Let_def mult.commute)

lemma calculateATSScore_many_issues:
  assumes "formatIssues d = Some fi" and "20 \<le> length fi"
  shows "calculateATSScore d = 0"
  using assms by (simp add: calculateATSScore_unfold or_empty_def)

text \<open>
  C1. The score is 100 minus 10, 15, 10 and 10 for a false \<open>hasContactInfo\<close>,
  \<open>hasWorkExperience\<close>, \<open>hasEducation\<close> and \<open>hasSkills\<close>, minus 5 for every
  entry of \<open>formatIssues\<close> (none when the field is absent), clamped to the interval from
  0 to 100. With the four flags false and two format issues it is 45.
\<close>

theorem calculateATSScore_formula:
  "calculateATSScore d =
     max 0 (min 100 (100
       - (if hasContactInfo d then 0 else 10)
       - (if hasWorkExperience d then 0 else 15)
       - (if hasEducation d then 0 else 10)
       - (if hasSkills d then 0 else 10)
       - 5 * (case formatIssues d of None \<Rightarrow> 0 | Some fi \<Rightarrow> int (length fi))))
   \<and> (\<not> hasContactInfo d \<and> \<not> hasWorkExperience d \<and> \<not> hasEducation d \<and> \<not> hasSkills d
        \<and> (\<exists>a b. formatIssues d = Some [a, b])
      \<longrightarrow> calculateATSScore d = 45)"
  by (cases "formatIssues d") (auto simp: calculateATSScore_unfold or_empty_def)

theorem calculateATSScore_formula_witness:
  "(\<exists>a b. formatIssues
       \<lparr>hasContactInfo = False, hasWorkExperience = False, hasEducation = False,
        hasSkills = False, formatIssues = Some [''a'', ''b''], skills = None,
        industryTerms = None, actionVerbs = None, strengths = None\<rparr> = Some [a, b])
   \<and> calculateATSScore
       \<lparr>hasContactInfo = False, hasWorkExperience = False, hasEducation = False,
        hasSkills = False, formatIssues = Some [''a'', ''b''], skills = None,
        industryTerms = None, actionVerbs = None, strengths = None\<rparr> = 45"
  using calculateATSScore_formula
    [of "\<lparr>hasContactInfo = False, hasWorkExperience = False, hasEducation = False,
         hasSkills = False, formatIssues = Some [''a'', ''b''], skills = None,
         industryTerms = None, actionVerbs = None, strengths = None\<rparr>"]
  by simp

text \<open>
  C5. The score lies between 0 and 100, whatever the presence flags are and however many
  format issues there are.
\<close>

theorem calculateATSScore_range:
  "0 \<le> calculateATSScore d \<and> calculateATSScore d \<le> 100"
  by (simp add: calculateATSScore_unfold)

text \<open>
  C10. The score is exactly 100 if and only if the four presence flags are true and
  \<open>formatIssues\<close> is empty or absent: once something is deducted, the clamp does not
  bring the score back to 100.
\<close>

theorem calculateATSScore_100_iff:
  "calculateATSScore d = 100 \<longleftrightarrow>
     hasContactInfo d \<and> hasWorkExperience d \<and> hasEducation d \<and> hasSkills d
     \<and> (formatIssues d = None \<or> formatIssues d = Some [])"
proof (cases "formatIssues d")
  case None
  then show ?thesis
    by (auto simp: calculateATSScore_unfold or_empty_def)
next
  case (Some fi)
  have "fi = [] \<longleftrightarrow> int (length fi) = 0"
    by simp
  with Some show ?thesis
    by (auto simp: calculateATSScore_unfold or_empty_def max_def min_def split: if_splits)
qed

subsection \<open>The keywords\<close>

lemma set_fold_Set_add: "set (fold Set_add xs ks) = set ks \<union> set xs"
  by (induction xs arbitrary: ks) (auto simp: Set_add_def)

lemma distinct_fold_Set_add: "distinct ks \<Longrightarrow> distinct (fold Set_add xs ks)"
  by (induction xs arbitrary: ks) (auto simp: Set_add_def)

lemma firstOccurrences_Nil: "firstOccurrences [] = []"
  by (simp add: firstOccurrences_def)

lemma firstOccurrences_snoc:
  "firstOccurrences (xs @ [x]) =
     (if x \<in> set xs then firstOccurrences xs else firstOccurrences xs @ [x])"
proof -
  define P where "P = (\<lambda>i. xs ! i \<notin> set (take i xs))"
  define P' where "P' = (\<lambda>i. (xs @ [x]) ! i \<notin> set (take i (xs @ [x])))"
  have unfold: "firstOccurrences (xs @ [x]) =
      map (\<lambda>i. (xs @ [x]) ! i) (filter P' [0..<length xs]) @ (if P' (length xs) then [x] else [])"
    by (simp add: firstOccurrences_def P'_def)
  have keep: "filter P' [0..<length xs] = filter P [0..<length xs]"
    by (rule filter_cong) (auto simp: P_def P'_def nth_append)
  have same: "map (\<lambda>i. (xs @ [x]) ! i) (filter P [0..<length xs])
      = map (\<lambda>i. xs ! i) (filter P [0..<length xs])"
    by (rule map_cong) (auto simp: nth_append)
  have last: "P' (length xs) \<longleftrightarrow> x \<notin> set xs"
    by (simp add: P'_def)
  have old: "firstOccurrences xs = map (\<lambda>i. xs ! i) (filter P [0..<length xs])"
    by (simp add: firstOccurrences_def P_def)
  show ?thesis
    unfolding unfold keep same last old by simp
qed

lemma fold_Set_add_firstOccurrences: "fold Set_add xs [] = firstOccurrences xs"
proof (induction xs rule: rev_induct)
  case Nil
  show ?case by (simp add: firstOccurrences_Nil)
next
  case (snoc x xs)
  have "set (firstOccurrences xs) = set xs"
    using set_fold_Set_add [of xs "[]"] snoc.IH by simp
  with snoc.IH show ?case
    by (simp add: firstOccurrences_snoc Set_add_def)
qed

lemma extractKeywords_fold:
  "extractKeywords d =
     fold Set_add (or_empty (skills d) @ or_empty (industryTerms d) @ or_empty (actionVerbs d)) []"
  by (simp add: extractKeywords_def forEach_def or_empty_def Let_def split: option.splits)

text \<open>
  C2. The keywords are the strings of \<open>skills\<close>, \<open>industryTerms\<close> and \<open>actionVerbs\<close>
  (an absent field counts as empty), each once, compared by equality of the strings as
  they are: the first occurrences in the concatenation of the three sequences in this
  order, later occurrences dropped.
\<close>

theorem extractKeywords_first_occurrences:
  "extractKeywords d =
       firstOccurrences (or_empty (skills d) @ or_empty (industryTerms d) @ or_empty (actionVerbs d))
   \<and> set (extractKeywords d) =
       set (or_empty (skills d)) \<union> set (or_empty (industryTerms d)) \<union> set (or_empty (actionVerbs d))
   \<and> distinct (extractKeywords d)"
proof -
  let ?all = "or_empty (skills d) @ or_empty (industryTerms d) @ or_empty (actionVerbs d)"
  have ek: "extractKeywords d = fold Set_add ?all []"
    by (rule extractKeywords_fold)
  have "extractKeywords d = firstOccurrences ?all"
    by (simp only: ek fold_Set_add_firstOccurrences)
  moreover have "set (extractKeywords d) = set ?all"
    by (simp only: ek set_fold_Set_add) simp
  moreover have "distinct (extractKeywords d)"
    unfolding ek by (rule distinct_fold_Set_add) simp
  ultimately show ?thesis
    by (simp add: Un_assoc)
qed


subsection \<open>The suggestions\<close>

lemma fold_push: "fold (\<lambda>x. push (g x)) xs acc = acc @ map g xs"
  by (induction xs arbitrary: acc) (simp_all add: push_def)

lemma forEach_push: "forEach xs (\<lambda>x. push (g x)) acc = acc @ map g (or_empty xs)"
  by (cases xs) (simp_all add: forEach_def or_empty_def fold_push)

lemma generateSuggestions_shape:
  "generateSuggestions d =
     (if hasContactInfo d then []
      else [\<lparr>text = ''Add complete contact information including phone, email, and location'',
             severity = error\<rparr>])
     @ (if hasWorkExperience d then []
        else [\<lparr>text = ''Include detailed work experience with measurable achievements'',
               severity = error\<rparr>])
     @ (if hasEducation d then []
        else [\<lparr>text = ''Add your educational background'', severity = error\<rparr>])
     @ (if hasSkills d then []
        else [\<lparr>text = ''List relevant technical and soft skills'', severity = error\<rparr>])
     @ map (\<lambda>issue. \<lparr>text = issue, severity = warning\<rparr>) (or_empty (formatIssues d))
     @ map (\<lambda>strength. \<lparr>text = strength, severity = success\<rparr>) (or_empty (strengths d))"
  by (simp add: generateSuggestions_def Let_def forEach_push push_def)

lemma generateSuggestions_blocks:
  "\<exists>es. generateSuggestions d =
      es @ map (\<lambda>issue. \<lparr>text = issue, severity = warning\<rparr>) (or_empty (formatIssues d))
         @ map (\<lambda>strength. \<lparr>text = strength, severity = success\<rparr>) (or_empty (strengths d))
      \<and> (\<forall>s \<in> set es. severity s = error)"
  by (simp add: generateSuggestions_shape)

lemma split_nth_less:
  assumes A: "\<forall>x \<in> set as. P x" and B: "\<forall>x \<in> set bs. \<not> P x"
    and i: "i < length (as @ bs)" and j: "j < length (as @ bs)"
    and Pi: "P ((as @ bs) ! i)" and Pj: "\<not> P ((as @ bs) ! j)"
  shows "i < j"
proof -
  have "i < length as"
  proof (rule ccontr)
    assume "\<not> i < length as"
    with i have "(as @ bs) ! i \<in> set bs"
      by (simp add: nth_append)
    with B Pi show False by blast
  qed
  moreover have "\<not> j < length as"
  proof
    assume "j < length as"
    then have "(as @ bs) ! j \<in> set as"
      by (simp add: nth_append)
    with A Pj show False by blast
  qed
  ultimately show ?thesis by simp
qed

text \<open>
  C3. The suggestions are, in this order: the fixed error suggestion for each false
  presence flag (contact, work experience, education, skills), a warning for each entry of
  \<open>formatIssues\<close> in input order, a success for each entry of \<open>strengths\<close> in input
  order. Their number is the number of false flags plus the lengths of the two sequences.
\<close>

theorem generateSuggestions_order:
  "generateSuggestions d =
     (if hasContactInfo d then []
      else [\<lparr>text = ''Add complete contact information including phone, email, and location'',
             severity = error\<rparr>])
     @ (if hasWorkExperience d then []
        else [\<lparr>text = ''Include detailed work experience with measurable achievements'',
               severity = error\<rparr>])
     @ (if hasEducation d then []
        else [\<lparr>text = ''Add your educational background'', severity = error\<rparr>])
     @ (if hasSkills d then []
        else [\<lparr>text = ''List relevant technical and soft skills'', severity = error\<rparr>])
     @ map (\<lambda>issue. \<lparr>text = issue, severity = warning\<rparr>)
         (case formatIssues d of None \<Rightarrow> [] | Some fi \<Rightarrow> fi)
     @ map (\<lambda>strength. \<lparr>text = strength, severity = success\<rparr>)
         (case strengths d of None \<Rightarrow> [] | Some st \<Rightarrow> st)
   \<and> length (generateSuggestions d) =
       length (filter Not [hasContactInfo d, hasWorkExperience d, hasEducation d, hasSkills d])
       + length (case formatIssues d of None \<Rightarrow> [] | Some fi \<Rightarrow> fi)
       + length (case strengths d of None \<Rightarrow> [] | Some st \<Rightarrow> st)"
  by (simp add: generateSuggestions_shape or_empty_def)

text \<open>
  C9. In the suggestions every error stands before every warning, every warning before
  every success, and every error before every success.
\<close>

theorem generateSuggestions_severity_grouped:
  assumes i: "i < length (generateSuggestions d)" and j: "j < length (generateSuggestions d)"
  shows "(severity (generateSuggestions d ! i) = error \<and> severity (generateSuggestions d ! j) = warning
            \<longrightarrow> i < j)
       \<and> (severity (generateSuggestions d ! i) = warning \<and> severity (generateSuggestions d ! j) = success
            \<longrightarrow> i < j)
       \<and> (severity (generateSuggestions d ! i) = error \<and> severity (generateSuggestions d ! j) = success
            \<longrightarrow> i < j)"
proof -
  obtain es where gs: "generateSuggestions d =
      es @ map (\<lambda>issue. \<lparr>text = issue, severity = warning\<rparr>) (or_empty (formatIssues d))
         @ map (\<lambda>strength. \<lparr>text = strength, severity = success\<rparr>) (or_empty (strengths d))"
    and es: "\<forall>s \<in> set es. severity s = error"
    using generateSuggestions_blocks by blast
  let ?ws = "map (\<lambda>issue. \<lparr>text = issue, severity = warning\<rparr>) (or_empty (formatIssues d))"
  let ?ss = "map (\<lambda>strength. \<lparr>text = strength, severity = success\<rparr>) (or_empty (strengths d))"
  have ws: "\<forall>s \<in> set ?ws. severity s = warning" by simp
  have ss: "\<forall>s \<in> set ?ss. severity s = success" by simp
  have e_first: "i < j"
    if "severity (generateSuggestions d ! i) = error" "severity (generateSuggestions d ! j) \<noteq> error"
  proof (rule split_nth_less [where P = "\<lambda>s. severity s = error" and as = es and bs = "?ws @ ?ss"])
    show "\<forall>x\<in>set es. severity x = error" by (rule es)
    show "\<forall>x\<in>set (?ws @ ?ss). severity x \<noteq> error" by auto
    show "i < length (es @ ?ws @ ?ss)" using i gs by simp
    show "j < length (es @ ?ws @ ?ss)" using j gs by simp
    show "severity ((es @ ?ws @ ?ss) ! i) = error" using that(1) gs by simp
    show "severity ((es @ ?ws @ ?ss) ! j) \<noteq> error" using that(2) gs by simp
  qed
  have s_last: "i < j"
    if "severity (generateSuggestions d ! i) \<noteq> success" "severity (generateSuggestions d ! j) = success"
  proof (rule split_nth_less [where P = "\<lambda>s. severity s \<noteq> success" and as = "es @ ?ws" and bs = "?ss"])
    show "\<forall>x\<in>set (es @ ?ws). severity x \<noteq> success" using es by auto
    show "\<forall>x\<in>set ?ss. \<not> severity x \<noteq> success" by simp
    show "i < length ((es @ ?ws) @ ?ss)" using i gs by simp
    show "j < length ((es @ ?ws) @ ?ss)" using j gs by simp
    show "severity (((es @ ?ws) @ ?ss) ! i) \<noteq> success" using that(1) gs by simp
    show "\<not> severity (((es @ ?ws) @ ?ss) ! j) \<noteq> success" using that(2) gs by simp
  qed
  show ?thesis
    using e_first s_last by auto
qed

theorem generateSuggestions_severity_grouped_witness:
  "length (generateSuggestions
       \<lparr>hasContactInfo = True, hasWorkExperience = False, hasEducation = True,
        hasSkills = True, formatIssues = Some [''Font too small''], skills = Some [''Python''],
        industryTerms = None, actionVerbs = None, strengths = Some [''Strong leadership'']\<rparr>) = 3
   \<and> severity (generateSuggestions
       \<lparr>hasContactInfo = True, hasWorkExperience = False, hasEducation = True,
        hasSkills = True, formatIssues = Some [''Font too small''], skills = Some [''Python''],
        industryTerms = None, actionVerbs = None, strengths = Some [''Strong leadership'']\<rparr> ! 0) = error
   \<and> severity (generateSuggestions
       \<lparr>hasContactInfo = True, hasWorkExperience = False, hasEducation = True,
        hasSkills = True, formatIssues = Some [''Font too small''], skills = Some [''Python''],
        industryTerms = None, actionVerbs = None, strengths = Some [''Strong leadership'']\<rparr> ! 1) = warning
   \<and> severity (generateSuggestions
       \<lparr>hasContactInfo = True, hasWorkExperience = False, hasEducation = True,
        hasSkills = True, formatIssues = Some [''Font too small''], skills = Some [''Python''],
        industryTerms = None, actionVerbs = None, strengths = Some [''Strong leadership'']\<rparr> ! 2) = success
   \<and> (0::nat) < 1 \<and> (1::nat) < 2 \<and> (0::nat) < 2"
  using generateSuggestions_severity_grouped [of 0 "\<lparr>hasContactInfo = True, hasWorkExperience = False, hasEducation = True,
        hasSkills = True, formatIssues = Some [''Font too small''], skills = Some [''Python''],
        industryTerms = None, actionVerbs = None, strengths = Some [''Strong leadership'']\<rparr>" 1]
    generateSuggestions_severity_grouped [of 1 "\<lparr>hasContactInfo = True, hasWorkExperience = False, hasEducation = True,
        hasSkills = True, formatIssues = Some [''Font too small''], skills = Some [''Python''],
        industryTerms = None, actionVerbs = None, strengths = Some [''Strong leadership'']\<rparr>" 2]
    generateSuggestions_severity_grouped [of 0 "\<lparr>hasContactInfo = True, hasWorkExperience = False, hasEducation = True,
        hasSkills = True, formatIssues = Some [''Font too small''], skills = Some [''Python''],
        industryTerms = None, actionVerbs = None, strengths = Some [''Strong leadership'']\<rparr>" 2]
  by (simp add: generateSuggestions_def forEach_def push_def Let_def)

subsection \<open>The format validation\<close>

text \<open>
  C4. \<open>isValid\<close> is true if and only if \<open>formatIssues\<close> is empty or absent, and
  \<open>issues\<close> is \<open>formatIssues\<close> itself, the empty sequence when it is absent.
\<close>

theorem validateFormat_spec:
  "(isValid (validateFormat d) \<longleftrightarrow> formatIssues d = None \<or> formatIssues d = Some [])
   \<and> issues (validateFormat d) = (case formatIssues d of None \<Rightarrow> [] | Some fi \<Rightarrow> fi)"
  by (cases "formatIssues d") (simp_all add: validateFormat_def length_truthy_def or_empty_def)

subsection \<open>The whole analysis\<close>

text \<open>
  C7. An absent \<open>formatIssues\<close> and an empty one give the same score, the same
  suggestions, the same format validation and the same result of the whole analysis.
\<close>

theorem formatIssues_absent_or_empty:
  "calculateATSScore (d\<lparr>formatIssues := None\<rparr>) = calculateATSScore (d\<lparr>formatIssues := Some []\<rparr>)
   \<and> generateSuggestions (d\<lparr>formatIssues := None\<rparr>) = generateSuggestions (d\<lparr>formatIssues := Some []\<rparr>)
   \<and> validateFormat (d\<lparr>formatIssues := None\<rparr>) = validateFormat (d\<lparr>formatIssues := Some []\<rparr>)
   \<and> analyze (d\<lparr>formatIssues := None\<rparr>) = analyze (d\<lparr>formatIssues := Some []\<rparr>)"
proof -
  have cs: "calculateATSScore (d\<lparr>formatIssues := None\<rparr>)
      = calculateATSScore (d\<lparr>formatIssues := Some []\<rparr>)"
    by (simp add: calculateATSScore_unfold or_empty_def)
  have gs: "generateSuggestions (d\<lparr>formatIssues := None\<rparr>)
      = generateSuggestions (d\<lparr>formatIssues := Some []\<rparr>)"
    by (simp add: generateSuggestions_shape or_empty_def)
  have vf: "validateFormat (d\<lparr>formatIssues := None\<rparr>) = validateFormat (d\<lparr>formatIssues := Some []\<rparr>)"
    by (simp add: validateFormat_def length_truthy_def or_empty_def)
  have ek: "extractKeywords (d\<lparr>formatIssues := None\<rparr>) = extractKeywords (d\<lparr>formatIssues := Some []\<rparr>)"
    by (simp add: extractKeywords_def)
  show ?thesis
    by (simp add: analyze_def cs gs vf ek)
qed

text \<open>
  The store-passing functions compute what the store-free ones compute, and leave the
  objects they created behind the cells that were there before.
\<close>

lemma fold_Set_add_at:
  "fold (\<lambda>x. Set_add_at (length h) x) xs (h @ [SetObject ks] @ h')
     = h @ [SetObject (fold Set_add xs ks)] @ h'"
  by (induction xs arbitrary: ks) (simp_all add: Set_add_at_def nth_append list_update_append)

lemma forEach_Set_add_at:
  "forEach xs (\<lambda>x. Set_add_at (length h) x) (h @ [SetObject ks])
     = h @ [SetObject (forEach xs Set_add ks)]"
  using fold_Set_add_at [of h _ ks "[]"] by (cases xs) (simp_all add: forEach_def)

lemma fold_push_at:
  "fold (\<lambda>x. push_at (length h) (g x)) xs (h @ [ArrayObject ys] @ h')
     = h @ [ArrayObject (fold (\<lambda>x. push (g x)) xs ys)] @ h'"
  by (induction xs arbitrary: ys) (simp_all add: push_at_def nth_append list_update_append)

lemma forEach_push_at:
  "forEach xs (\<lambda>x. push_at (length h) (g x)) (h @ [ArrayObject ys])
     = h @ [ArrayObject (forEach xs (\<lambda>x. push (g x)) ys)]"
  using fold_push_at [of h g _ ys "[]"] by (cases xs) (simp_all add: forEach_def)

lemma push_at_fresh:
  "push_at (length h) x (h @ [ArrayObject ys]) = h @ [ArrayObject (push x ys)]"
  by (simp add: push_at_def)

lemma extractKeywords_heap_pure:
  "extractKeywords_heap d h = (extractKeywords d, h @ [SetObject (extractKeywords d)])"
  by (simp add: extractKeywords_heap_def extractKeywords_def new_Set_def Let_def
      forEach_Set_add_at Array_from_at_def)

lemma generateSuggestions_heap_pure:
  "generateSuggestions_heap d h = (generateSuggestions d, h @ [ArrayObject (generateSuggestions d)])"
  by (simp add: generateSuggestions_heap_def generateSuggestions_def new_Array_def Let_def
      forEach_push_at push_at_fresh array_at_def)

lemma analyze_heap_pure:
  "analyze_heap d h =
     (\<lparr>score = calculateATSScore d, keywords = extractKeywords d,
       suggestions = generateSuggestions d, format = validateFormat d\<rparr>,
      h @ [SetObject (extractKeywords d), ArrayObject (generateSuggestions d)])"
  by (simp add: analyze_heap_def extractKeywords_heap_pure generateSuggestions_heap_pure)


lemma analyze_end_to_end:
  "analyze
       \<lparr>hasContactInfo = True, hasWorkExperience = False, hasEducation = True,
        hasSkills = True, formatIssues = Some [''Font too small''], skills = Some [''Python''],
        industryTerms = None, actionVerbs = None, strengths = Some [''Strong leadership'']\<rparr> =
     \<lparr>score = 80, keywords = [''Python''],
      suggestions =
        [\<lparr>text = ''Include detailed work experience with measurable achievements'',
          severity = error\<rparr>,
         \<lparr>text = ''Font too small'', severity = warning\<rparr>,
         \<lparr>text = ''Strong leadership'', severity = success\<rparr>],
      format = \<lparr>isValid = False, issues = [''Font too small'']\<rparr>\<rparr>"
  by (simp add: analyze_def calculateATSScore_def extractKeywords_def generateSuggestions_def
      validateFormat_def forEach_def Set_add_def push_def length_truthy_def or_empty_def Let_def)

text \<open>
  C6. Started in any store, the analysis returns the record of the score, the keywords,
  the suggestions and the format validation of the input. The result does not depend on
  the store: two invocations on the same input, started in different stores or one after
  the other in the store the first one left, return equal results, and no cell that
  existed before an invocation is changed by it. On the input of the end-to-end example
  (work experience missing, one format issue) the score is 80, and the keywords, the
  suggestions and the format validation are the ones the specification lists.
\<close>

theorem analyze_composition:
  "fst (analyze_heap d h) =
     \<lparr>score = calculateATSScore d, keywords = extractKeywords d,
      suggestions = generateSuggestions d, format = validateFormat d\<rparr>
   \<and> fst (analyze_heap d h) = analyze d
   \<and> fst (analyze_heap d h') = fst (analyze_heap d h)
   \<and> fst (analyze_heap d (snd (analyze_heap d h))) = fst (analyze_heap d h)
   \<and> take (length h) (snd (analyze_heap d h)) = h
   \<and> fst (analyze_heap
       \<lparr>hasContactInfo = True, hasWorkExperience = False, hasEducation = True,
        hasSkills = True, formatIssues = Some [''Font too small''], skills = Some [''Python''],
        industryTerms = None, actionVerbs = None, strengths = Some [''Strong leadership'']\<rparr> h) =
     \<lparr>score = 80, keywords = [''Python''],
      suggestions =
        [\<lparr>text = ''Include detailed work experience with measurable achievements'',
          severity = error\<rparr>,
         \<lparr>text = ''Font too small'', severity = warning\<rparr>,
         \<lparr>text = ''Strong leadership'', severity = success\<rparr>],
      format = \<lparr>isValid = False, issues = [''Font too small'']\<rparr>\<rparr>"
proof -
  have "fst (analyze_heap
       \<lparr>hasContactInfo = True, hasWorkExperience = False, hasEducation = True,
        hasSkills = True, formatIssues = Some [''Font too small''], skills = Some [''Python''],
        industryTerms = None, actionVerbs = None, strengths = Some [''Strong leadership'']\<rparr> h) =
     \<lparr>score = 80, keywords = [''Python''],
      suggestions =
        [\<lparr>text = ''Include detailed work experience with measurable achievements'',
          severity = error\<rparr>,
         \<lparr>text = ''Font too small'', severity = warning\<rparr>,
         \<lparr>text = ''Strong leadership'', severity = success\<rparr>],
      format = \<lparr>isValid = False, issues = [''Font too small'']\<rparr>\<rparr>"
    by (simp only: analyze_heap_pure fst_conv analyze_end_to_end [unfolded analyze_def])
  then show ?thesis
    by (simp add: analyze_heap_pure analyze_def)
qed

text \<open>
  The score of the end-to-end example is not 75: 15 is deducted for the missing work
  experience and 5 for the one format issue, which leaves 80.
\<close>

theorem analyze_end_to_end_counterexample:
  "score (analyze
       \<lparr>hasContactInfo = True, hasWorkExperience = False, hasEducation = True,
        hasSkills = True, formatIssues = Some [''Font too small''], skills = Some [''Python''],
        industryTerms = None, actionVerbs = None, strengths = Some [''Strong leadership'']\<rparr>) = 80
   \<and> analyze
       \<lparr>hasContactInfo = True, hasWorkExperience = False, hasEducation = True,
        hasSkills = True, formatIssues = Some [''Font too small''], skills = Some [''Python''],
        industryTerms = None, actionVerbs = None, strengths = Some [''Strong leadership'']\<rparr> \<noteq>
     \<lparr>score = 75, keywords = [''Python''],
      suggestions =
        [\<lparr>text = ''Include detailed work experience with measurable achievements'',
          severity = error\<rparr>,
         \<lparr>text = ''Font too small'', severity = warning\<rparr>,
         \<lparr>text = ''Strong leadership'', severity = success\<rparr>],
      format = \<lparr>isValid = False, issues = [''Font too small'']\<rparr>\<rparr>"
  by (simp add: analyze_def calculateATSScore_def Let_def)

subsection \<open>The errors a caller sees\<close>

text \<open>
  C8. Without a file the query fails with a \<open>FileNotSelectedError\<close>. With a file, any
  failure of the extraction or of the analysis is the \<open>Error\<close> "Failed to analyze
  resume", which differs from the no-file error in its class, its name and its message:
  a caller can tell the two apart.
\<close>

theorem no_file_error_distinct:
  "queryFn postExtractText postAnalyze None = Inl (new_FileNotSelectedError ''No file selected'')
   \<and> (queryFn postExtractText postAnalyze (Some f) = Inl e \<longrightarrow>
        e = new_Error ''Failed to analyze resume''
        \<and> e \<noteq> new_FileNotSelectedError ''No file selected''
        \<and> errorClass e \<noteq> errorClass (new_FileNotSelectedError ''No file selected'')
        \<and> name e \<noteq> name (new_FileNotSelectedError ''No file selected'')
        \<and> message e \<noteq> message (new_FileNotSelectedError ''No file selected''))"
proof -
  have none: "queryFn postExtractText postAnalyze None
      = Inl (new_FileNotSelectedError ''No file selected'')"
    by (simp add: queryFn_def)
  have some: "e = new_Error ''Failed to analyze resume''"
    if "queryFn postExtractText postAnalyze (Some f) = Inl e"
    using that by (auto simp: queryFn_def analyzeResume_def split: sum.splits)
  have diff: "errorClass (new_Error ''Failed to analyze resume'')
        \<noteq> errorClass (new_FileNotSelectedError ''No file selected'')"
    "name (new_Error ''Failed to analyze resume'')
        \<noteq> name (new_FileNotSelectedError ''No file selected'')"
    "message (new_Error ''Failed to analyze resume'')
        \<noteq> message (new_FileNotSelectedError ''No file selected'')"
    by (simp_all add: new_Error_def new_FileNotSelectedError_def)
  from diff(1) have neq: "new_Error ''Failed to analyze resume''
      \<noteq> new_FileNotSelectedError ''No file selected''"
    by auto
  show ?thesis
  proof (intro conjI impI)
    show "queryFn postExtractText postAnalyze None
        = Inl (new_FileNotSelectedError ''No file selected'')"
      by (rule none)
  next
    assume q: "queryFn postExtractText postAnalyze (Some f) = Inl e"
    show "e = new_Error ''Failed to analyze resume''"
      by (rule some [OF q])
    show "e \<noteq> new_FileNotSelectedError ''No file selected''"
      using neq some [OF q] by simp
    show "errorClass e \<noteq> errorClass (new_FileNotSelectedError ''No file selected'')"
      using diff(1) some [OF q] by simp
    show "name e \<noteq> name (new_FileNotSelectedError ''No file selected'')"
      using diff(2) some [OF q] by simp
    show "message e \<noteq> message (new_FileNotSelectedError ''No file selected'')"
      using diff(3) some [OF q] by simp
  qed
qed

theorem no_file_error_distinct_witness:
  "queryFn (\<lambda>_::unit. (Inl () :: unit + unit)) (\<lambda>_::unit. (Inl () :: unit + APIResponse)) (Some ())
     = Inl (new_Error ''Failed to analyze resume'')
   \<and> queryFn (\<lambda>_::unit. (Inl () :: unit + unit)) (\<lambda>_::unit. (Inl () :: unit + APIResponse)) None
     = Inl (new_FileNotSelectedError ''No file selected'')
   \<and> new_Error ''Failed to analyze resume'' \<noteq> new_FileNotSelectedError ''No file selected''"
  using no_file_error_distinct
    [of "\<lambda>_::unit. (Inl () :: unit + unit)" "\<lambda>_::unit. (Inl () :: unit + APIResponse)" "()"
        "new_Error ''Failed to analyze resume''"]
  by (simp add: queryFn_def analyzeResume_def)

end
